theory Spec2Isabelle
  imports Complex_Main
begin

section \<open>The Node binding of the sglang router client\<close>

text \<open>
  A shallow embedding of \<^verbatim>\<open>sgl-router/bindings/node/client.js\<close>: the class
  \<^verbatim>\<open>SglangClient\<close> wraps a native client (\<^verbatim>\<open>this.inner\<close>) and offers
  \<^verbatim>\<open>encode\<close>, \<^verbatim>\<open>decode\<close>, \<^verbatim>\<open>chatCompletion\<close> and
  \<^verbatim>\<open>chatCompletionStream\<close>. Exceptions are values (\<open>Inl\<close> of a sum), a promise
  is what it settles to, or \<open>None\<close> when it never settles, and every operation returns, next to its result, the calls
  it made on the native client, in order.
\<close>

subsection \<open>Values and exceptions of the JavaScript side\<close>

text \<open>
  The values \<^verbatim>\<open>JSON.parse\<close> can return. A JavaScript number that comes out of a
  JSON text is a finite double, hence a rational; an object is its list of properties in
  insertion order.
\<close>

datatype json =
    JNull
  | JBool bool
  | JNum rat
  | JStr string
  | JArr "json list"
  | JObj "(string \<times> json) list"

text \<open>
  Exception values: \<^verbatim>\<open>new Error(message)\<close> (also what the native client rejects
  or calls back with), the \<^verbatim>\<open>SyntaxError\<close> of \<^verbatim>\<open>JSON.parse\<close>, and the
  \<^verbatim>\<open>TypeError\<close> of reading a property of \<^verbatim>\<open>null\<close>.
\<close>

datatype js_error = Error string | SyntaxError string | TypeError string

text \<open>
  Modelled from the spec: the request type \<^verbatim>\<open>ChatCompletionRequest\<close> is declared in
  the TypeScript source of the client, of which only the compiled \<^verbatim>\<open>client.js\<close> is
  at hand. The fields are those of the spec's Request record; the tests build requests
  with and without the \<^verbatim>\<open>stream\<close>, \<^verbatim>\<open>max_tokens\<close> and
  \<^verbatim>\<open>temperature\<close> properties, so these three are optional.
\<close>

datatype role = User | Assistant | System

record message =
  role :: role
  content :: string

record request =
  model :: string
  messages :: "message list"
  max_tokens :: "nat option"
  temperature :: "rat option"
  stream :: "bool option"

text \<open>
  \<^verbatim>\<open>if (request.stream)\<close> tests truthiness: an absent property reads as
  \<^verbatim>\<open>undefined\<close>, which is falsy like \<^verbatim>\<open>false\<close>.
\<close>

fun truthy :: "bool option \<Rightarrow> bool" where
  "truthy None = False"
| "truthy (Some b) = b"

text \<open>
  The two functions of the engine's \<^verbatim>\<open>JSON\<close> object that the client calls are
  parameters of the model. \<^verbatim>\<open>JSON.stringify\<close> does not throw on a request, which
  is plain data (strings, numbers, booleans, arrays); \<^verbatim>\<open>JSON.parse\<close> returns a value
  or throws.
\<close>

record js_runtime =
  JSON_stringify :: "request \<Rightarrow> string"
  JSON_parse :: "string \<Rightarrow> js_error + json"

subsection \<open>The native client\<close>

text \<open>
  \<^verbatim>\<open>require('./index')\<close>, the compiled binding, is a parameter as well. A call of
  the tokenizer returns or throws. \<^verbatim>\<open>chatCompletion\<close> returns a promise: it is
  rejected (\<open>Some (Inl e)\<close>), fulfilled with the response text (\<open>Some (Inr s)\<close>) or
  never settled (\<open>None\<close>). \<^verbatim>\<open>chatCompletionStream(jsonStr, callback)\<close> returns at
  once and the binding then invokes \<^verbatim>\<open>callback(err, chunkStr)\<close> some number of
  times: the model has the list of these invocations, in the order they are made.
\<close>

datatype payload = PNull | PStr string

type_synonym cb_call = "js_error option \<times> payload"

record native_client =
  tokenizerEncode :: "string \<Rightarrow> js_error + nat list"
  tokenizerDecode :: "nat list \<Rightarrow> js_error + string"
  inner_chatCompletion :: "string \<Rightarrow> (js_error + string) option"
  inner_chatCompletionStream :: "string \<Rightarrow> cb_call list"

datatype native_call =
    TokenizerEncode string
  | TokenizerDecode "nat list"
  | ChatCompletion string
  | ChatCompletionStream string

subsection \<open>encode and decode\<close>

definition encode :: "native_client \<Rightarrow> string \<Rightarrow> (js_error + nat list) \<times> native_call list" where
  "encode inner text = (tokenizerEncode inner text, [TokenizerEncode text])"

definition decode :: "native_client \<Rightarrow> nat list \<Rightarrow> (js_error + string) \<times> native_call list" where
  "decode inner tokenIds = (tokenizerDecode inner tokenIds, [TokenizerDecode tokenIds])"

text \<open>\<^verbatim>\<open>decode(encode(s))\<close>: the second call is made only when the first returns.\<close>

definition decode_encode :: "native_client \<Rightarrow> string \<Rightarrow> js_error + string" where
  "decode_encode inner s =
     (case fst (encode inner s) of
        Inl e \<Rightarrow> Inl e
      | Inr tokenIds \<Rightarrow> fst (decode inner tokenIds))"

subsection \<open>chatCompletion\<close>

text \<open>
  What the promise of \<^verbatim>\<open>chatCompletion\<close> is fulfilled with: whatever value
  \<^verbatim>\<open>JSON.parse\<close> made of the response text, or the object literal whose only
  property is \<^verbatim>\<open>[Symbol.asyncIterator]\<close>.
\<close>

datatype chat_result = ParsedResponse json | AsyncIterable

text \<open>
  The async generator behind \<^verbatim>\<open>[Symbol.asyncIterator]\<close>. Its body declares a queue,
  three flags and a callback, registers the callback nowhere, and throws; it has no
  \<^verbatim>\<open>yield\<close>. A generator object is therefore either not yet started or completed.
  \<^verbatim>\<open>next()\<close> on a fresh generator runs the body, so its promise is rejected with the
  thrown error; on a completed generator it is fulfilled with
  \<^verbatim>\<open>{value: undefined, done: true}\<close>.
\<close>

datatype gen_state = SuspendedStart | GenCompleted

datatype iter_result = IterValue json | IterDone

definition unimplemented_message :: string where
  "unimplemented_message =
     ''Streaming interface requires update to native binding to signal completion.''"

fun asyncIterator :: "chat_result \<Rightarrow> gen_state option" where
  "asyncIterator AsyncIterable = Some SuspendedStart"
| "asyncIterator (ParsedResponse v) = None"

fun gen_next :: "gen_state \<Rightarrow> (js_error + iter_result) \<times> gen_state \<times> native_call list" where
  "gen_next SuspendedStart = (Inl (Error unimplemented_message), GenCompleted, [])"
| "gen_next GenCompleted = (Inr IterDone, GenCompleted, [])"


text \<open>
  The async function \<^verbatim>\<open>chatCompletion\<close>. Its promise never settles when the
  awaited promise of the native client never does; an exception of the awaited call or of
  \<^verbatim>\<open>JSON.parse\<close> rejects it with that same exception.
\<close>

definition chatCompletion ::
  "js_runtime \<Rightarrow> native_client \<Rightarrow> request \<Rightarrow>
     (js_error + chat_result) option \<times> native_call list" where
  "chatCompletion rt inner request =
     (let jsonStr = JSON_stringify rt request in
      if truthy (stream request) then (Some (Inr AsyncIterable), [])
      else
        (case inner_chatCompletion inner jsonStr of
           None \<Rightarrow> (None, [ChatCompletion jsonStr])
         | Some (Inl e) \<Rightarrow> (Some (Inl e), [ChatCompletion jsonStr])
         | Some (Inr responseStr) \<Rightarrow>
             (case JSON_parse rt responseStr of
                Inl e \<Rightarrow> (Some (Inl e), [ChatCompletion jsonStr])
              | Inr response \<Rightarrow>
                  (Some (Inr (ParsedResponse response)), [ChatCompletion jsonStr]))))"

subsection \<open>chatCompletionStream\<close>

text \<open>
  The consumer passes two callbacks. What the consumer observes is the list of calls it
  receives, \<^verbatim>\<open>onChunk(v)\<close> or \<^verbatim>\<open>onError(e)\<close>, in order. A callback is
  JavaScript of the caller and may throw: given the calls received so far and its
  argument, it returns normally (\<open>None\<close>) or throws (\<open>Some e\<close>).
\<close>

datatype consumer_call = CallOnChunk json | CallOnError js_error

record consumer =
  onChunk :: "consumer_call list \<Rightarrow> json \<Rightarrow> js_error option"
  onError :: "consumer_call list \<Rightarrow> js_error \<Rightarrow> js_error option"

definition call_onChunk ::
  "consumer \<Rightarrow> json \<Rightarrow> consumer_call list \<Rightarrow> js_error option \<times> consumer_call list" where
  "call_onChunk c v seen = (onChunk c seen v, seen @ [CallOnChunk v])"

definition call_onError ::
  "consumer \<Rightarrow> js_error \<Rightarrow> consumer_call list \<Rightarrow> js_error option \<times> consumer_call list" where
  "call_onError c e seen = (onError c seen e, seen @ [CallOnError e])"

text \<open>
  \<^verbatim>\<open>JSON.parse(chunkStr)\<close> converts its argument to a string first, so
  \<^verbatim>\<open>null\<close> is read as the text \<^verbatim>\<open>null\<close>.
\<close>

fun parse_payload :: "js_runtime \<Rightarrow> payload \<Rightarrow> js_error + json" where
  "parse_payload rt (PStr s) = JSON_parse rt s"
| "parse_payload rt PNull = JSON_parse rt ''null''"

text \<open>
  The arrow function handed to \<^verbatim>\<open>this.inner.chatCompletionStream\<close>. It returns the
  exception that escapes it, if any, and the consumer's calls extended. An exception of
  \<^verbatim>\<open>onChunk(chunk)\<close> is thrown inside the \<^verbatim>\<open>try\<close> and so is handed to
  \<^verbatim>\<open>onError\<close>; an exception of \<^verbatim>\<open>onError\<close> or of \<^verbatim>\<open>onChunk(null)\<close>
  escapes.
\<close>

definition stream_callback ::
  "js_runtime \<Rightarrow> consumer \<Rightarrow> cb_call \<Rightarrow> consumer_call list \<Rightarrow> js_error option \<times> consumer_call list" where
  "stream_callback rt c call seen =
     (case call of (err, chunkStr) \<Rightarrow>
        (case err of
           Some e \<Rightarrow> call_onError c e seen
         | None \<Rightarrow>
             if chunkStr = PStr ''null'' \<or> chunkStr = PNull then call_onChunk c JNull seen
             else
               (case parse_payload rt chunkStr of
                  Inl e \<Rightarrow> call_onError c e seen
                | Inr chunk \<Rightarrow>
                    (case call_onChunk c chunk seen of
                       (None, seen') \<Rightarrow> (None, seen')
                     | (Some e, seen') \<Rightarrow> call_onError c e seen'))))"

text \<open>
  The native client invoking a callback once per element of a list of invocations. The
  exceptions that escaped the callback are collected in order.
\<close>

fun transport_invokes ::
  "(cb_call \<Rightarrow> consumer_call list \<Rightarrow> js_error option \<times> consumer_call list) \<Rightarrow>
     cb_call list \<Rightarrow> consumer_call list \<Rightarrow> js_error list \<times> consumer_call list" where
  "transport_invokes cb [] seen = ([], seen)"
| "transport_invokes cb (x # xs) seen =
     (case cb x seen of
        (esc, seen') \<Rightarrow>
          (case transport_invokes cb xs seen' of
             (escs, seen'') \<Rightarrow> ((case esc of None \<Rightarrow> escs | Some e \<Rightarrow> e # escs), seen'')))"

text \<open>
  \<^verbatim>\<open>chatCompletionStream(request, onChunk, onError)\<close> serializes the request and
  registers the callback with the native client; the result is what the consumer has
  observed, and which exceptions escaped, once the native client has made its
  invocations.
\<close>

definition chatCompletionStream ::
  "js_runtime \<Rightarrow> native_client \<Rightarrow> request \<Rightarrow> consumer \<Rightarrow>
     (js_error list \<times> consumer_call list) \<times> native_call list" where
  "chatCompletionStream rt inner request c =
     (let jsonStr = JSON_stringify rt request in
      (transport_invokes (stream_callback rt c) (inner_chatCompletionStream inner jsonStr) [],
       [ChatCompletionStream jsonStr]))"

definition observed ::
  "js_runtime \<Rightarrow> native_client \<Rightarrow> request \<Rightarrow> consumer \<Rightarrow> consumer_call list" where
  "observed rt inner request c = snd (fst (chatCompletionStream rt inner request c))"

subsection \<open>Reading the consumer's observations\<close>

text \<open>
  \<^verbatim>\<open>onChunk(null)\<close> is the end-of-stream signal and \<^verbatim>\<open>onError\<close> the error signal:
  the two terminal events. Every other \<^verbatim>\<open>onChunk\<close> delivers a fragment.
\<close>

fun is_terminal :: "consumer_call \<Rightarrow> bool" where
  "is_terminal (CallOnChunk v) = (v = JNull)"
| "is_terminal (CallOnError e) = True"

definition terminal_count :: "consumer_call list \<Rightarrow> nat" where
  "terminal_count seen = length (filter is_terminal seen)"

fun chunks_of :: "consumer_call list \<Rightarrow> json list" where
  "chunks_of [] = []"
| "chunks_of (CallOnChunk v # seen) = v # chunks_of seen"
| "chunks_of (CallOnError e # seen) = chunks_of seen"

definition fragments_of :: "consumer_call list \<Rightarrow> json list" where
  "fragments_of seen = filter (\<lambda>v. v \<noteq> JNull) (chunks_of seen)"

fun is_sentinel :: "payload \<Rightarrow> bool" where
  "is_sentinel PNull = True"
| "is_sentinel (PStr s) = (s = ''null'')"

text \<open>
  What one invocation of the native client carries for \<^verbatim>\<open>onChunk\<close>: nothing when it
  reports an error or its payload is no JSON text, \<^verbatim>\<open>null\<close> for the sentinel, the
  parsed payload otherwise.
\<close>

fun carried_chunk :: "js_runtime \<Rightarrow> cb_call \<Rightarrow> json option" where
  "carried_chunk rt (Some e, p) = None"
| "carried_chunk rt (None, p) =
     (if is_sentinel p then Some JNull
      else (case parse_payload rt p of Inl e \<Rightarrow> None | Inr v \<Rightarrow> Some v))"

text \<open>
  An invocation is terminal when it reports an error, carries the sentinel, or carries a
  payload that \<^verbatim>\<open>JSON.parse\<close> rejects or reads as \<^verbatim>\<open>null\<close>.
\<close>

fun terminal_call :: "js_runtime \<Rightarrow> cb_call \<Rightarrow> bool" where
  "terminal_call rt (Some e, p) = True"
| "terminal_call rt (None, p) =
     (is_sentinel p \<or> (case parse_payload rt p of Inl e \<Rightarrow> True | Inr v \<Rightarrow> v = JNull))"

text \<open>The invocations that deliver the given payload texts, one each, without error.\<close>

definition fragment_calls :: "string list \<Rightarrow> cb_call list" where
  "fragment_calls texts = map (\<lambda>s. (None, PStr s)) texts"

text \<open>
  The signal of an invocation that reports an error or carries the sentinel; an
  invocation with any other payload has none.
\<close>

fun terminal_signal :: "cb_call \<Rightarrow> consumer_call option" where
  "terminal_signal (Some e, p) = Some (CallOnError e)"
| "terminal_signal (None, p) = (if is_sentinel p then Some (CallOnChunk JNull) else None)"

text \<open>
  Modelled from the spec: the record types of the response and of a stream fragment are
  declared in the TypeScript source, which is not at hand. These are the required
  top-level fields of the spec's UnaryResponse and StreamFragment, with their types.
\<close>

fun field :: "string \<Rightarrow> json \<Rightarrow> json option" where
  "field k (JObj kvs) = map_of kvs k"
| "field k v = None"

fun is_string_field :: "string \<Rightarrow> json \<Rightarrow> bool" where
  "is_string_field k v = (case field k v of Some (JStr s) \<Rightarrow> True | _ \<Rightarrow> False)"

fun is_integer_field :: "string \<Rightarrow> json \<Rightarrow> bool" where
  "is_integer_field k v = (case field k v of Some (JNum n) \<Rightarrow> of_int \<lfloor>n\<rfloor> = n | _ \<Rightarrow> False)"

fun is_array_field :: "string \<Rightarrow> json \<Rightarrow> bool" where
  "is_array_field k v = (case field k v of Some (JArr xs) \<Rightarrow> True | _ \<Rightarrow> False)"

fun is_object_field :: "string \<Rightarrow> json \<Rightarrow> bool" where
  "is_object_field k v = (case field k v of Some (JObj kvs) \<Rightarrow> True | _ \<Rightarrow> False)"

definition unary_response_shape :: "json \<Rightarrow> bool" where
  "unary_response_shape v \<longleftrightarrow>
     is_string_field ''id'' v \<and> is_string_field ''model'' v \<and> is_integer_field ''created'' v \<and>
     is_array_field ''choices'' v \<and> is_object_field ''usage'' v"


subsection \<open>Example data\<close>

text \<open>
  The requests of \<^verbatim>\<open>client_test.ts\<close>: the chat request, which has no
  \<^verbatim>\<open>stream\<close> property, and the streaming request.
\<close>

definition chat_request :: request where
  "chat_request =
     \<lparr>model = ''Qwen/Qwen3-0.6B'',
      messages = [\<lparr>role = User, content = ''What is 1+1?''\<rparr>],
      max_tokens = Some 16, temperature = Some 0, stream = None\<rparr>"

definition stream_request :: request where
  "stream_request =
     \<lparr>model = ''Qwen/Qwen3-0.6B'',
      messages = [\<lparr>role = User, content = ''Count to 3''\<rparr>],
      max_tokens = Some 32, temperature = Some 0, stream = Some True\<rparr>"

text \<open>
  The response and the chunk of the tests' type checks, as values and as the JSON texts
  that denote them; the chunk is given for any content free of characters that JSON
  escapes.
\<close>

definition response_value :: json where
  "response_value =
     JObj [(''id'', JStr ''test-id''), (''model'', JStr ''default''), (''created'', JNum 1234567890),
           (''choices'', JArr [JObj [(''index'', JNum 0),
              (''message'', JObj [(''role'', JStr ''assistant''), (''content'', JStr ''Hello'')]),
              (''finish_reason'', JStr ''stop'')]]),
           (''usage'', JObj [(''prompt_tokens'', JNum 10), (''completion_tokens'', JNum 20),
              (''total_tokens'', JNum 30)])]"

definition response_text :: string where
  \<open>response_text =
     ''{"id":"test-id","model":"default","created":1234567890,"choices":[{"index":0,'' @
     ''"message":{"role":"assistant","content":"Hello"},"finish_reason":"stop"}],'' @
     ''"usage":{"prompt_tokens":10,"completion_tokens":20,"total_tokens":30}}''\<close>

definition chunk_value :: "string \<Rightarrow> json" where
  "chunk_value text =
     JObj [(''id'', JStr ''stream-id''), (''created'', JNum 1234567890),
           (''choices'', JArr [JObj [(''index'', JNum 0),
              (''delta'', JObj [(''content'', JStr text)]), (''finish_reason'', JNull)]])]"

definition chunk_text :: "string \<Rightarrow> string" where
  \<open>chunk_text text =
     ''{"id":"stream-id","created":1234567890,"choices":[{"index":0,"delta":{"content":"'' @
     text @ ''"},"finish_reason":null}]}''\<close>

text \<open>
  Two JSON texts that are not responses: an object without any of the required fields,
  and one whose \<^verbatim>\<open>id\<close> is a number.
\<close>

definition empty_object_text :: string where
  "empty_object_text = ''{}''"

definition mistyped_text :: string where
  \<open>mistyped_text = ''{"id":1}''\<close>

text \<open>A response cut short in transit: no JSON text.\<close>

definition truncated_text :: string where
  \<open>truncated_text = ''{"id":''\<close>

text \<open>
  A runtime for the examples. It agrees with \<^verbatim>\<open>JSON.stringify\<close> on the two requests
  above and with \<^verbatim>\<open>JSON.parse\<close> on the texts listed and on the truncated text,
  which are the only arguments the examples give it.
\<close>

definition example_stringify :: "request \<Rightarrow> string" where
  \<open>example_stringify r =
     (if r = stream_request then
        ''{"model":"Qwen/Qwen3-0.6B","messages":[{"role":"user","content":"Count to 3"}],'' @
        ''"max_tokens":32,"temperature":0,"stream":true}''
      else
        ''{"model":"Qwen/Qwen3-0.6B","messages":[{"role":"user","content":"What is 1+1?"}],'' @
        ''"max_tokens":16,"temperature":0}'')\<close>

definition example_parse :: "string \<Rightarrow> js_error + json" where
  \<open>example_parse s =
     (if s = response_text then Inr response_value
      else if s = chunk_text ''He'' then Inr (chunk_value ''He'')
      else if s = chunk_text ''llo'' then Inr (chunk_value ''llo'')
      else if s = empty_object_text then Inr (JObj [])
      else if s = mistyped_text then Inr (JObj [(''id'', JNum 1)])
      else if s = ''null'' then Inr JNull
      else Inl (SyntaxError ''Unexpected end of JSON input''))\<close>

definition example_runtime :: js_runtime where
  "example_runtime = \<lparr>JSON_stringify = example_stringify, JSON_parse = example_parse\<rparr>"

text \<open>
  Native clients for the examples: a tokenizer that knows the text of the tests' round
  trip, a unary call whose promise settles as given, and a streaming call that makes the
  given invocations; and one whose unary call never settles.
\<close>

definition example_native :: "(js_error + string) \<Rightarrow> cb_call list \<Rightarrow> native_client" where
  "example_native unary invocations =
     \<lparr>tokenizerEncode =
        (\<lambda>text. if text = ''Hello world'' then Inr [9707, 1879]
                else Inl (Error ''tokenizer: cannot encode'')),
      tokenizerDecode =
        (\<lambda>ids. if ids = [9707, 1879] then Inr ''Hello world''
               else Inl (Error ''tokenizer: cannot decode'')),
      inner_chatCompletion = (\<lambda>jsonStr. Some unary),
      inner_chatCompletionStream = (\<lambda>jsonStr. invocations)\<rparr>"

definition pending_native :: native_client where
  "pending_native =
     (example_native (Inr response_text) [])\<lparr>inner_chatCompletion := (\<lambda>jsonStr. None)\<rparr>"

text \<open>
  The scenario of the spec: the fragments \<^verbatim>\<open>He\<close> and \<^verbatim>\<open>llo\<close>, then the sentinel.
\<close>

definition hello_invocations :: "cb_call list" where
  "hello_invocations =
     [(None, PStr (chunk_text ''He'')), (None, PStr (chunk_text ''llo'')), (None, PStr ''null'')]"

definition transport_failure :: js_error where
  "transport_failure = Error ''transport error''"

text \<open>A consumer whose callbacks always return normally.\<close>

definition quiet_consumer :: consumer where
  "quiet_consumer = \<lparr>onChunk = (\<lambda>seen v. None), onError = (\<lambda>seen e. None)\<rparr>"

section \<open>Properties\<close>

subsection \<open>Auxiliary facts\<close>

lemmas example_texts =
  response_text_def chunk_text_def truncated_text_def empty_object_text_def mistyped_text_def

lemma chunks_of_append: "chunks_of (xs @ ys) = chunks_of xs @ chunks_of ys"
  by (induction xs rule: chunks_of.induct) simp_all

lemma terminal_count_append: "terminal_count (xs @ ys) = terminal_count xs + terminal_count ys"
  by (simp add: terminal_count_def)

lemma stream_callback_cases:
  "snd (stream_callback rt c x seen) =
     seen @
     (case x of
        (Some e, p) \<Rightarrow> [CallOnError e]
      | (None, p) \<Rightarrow>
          if is_sentinel p then [CallOnChunk JNull]
          else
            (case parse_payload rt p of
               Inl e \<Rightarrow> [CallOnError e]
             | Inr v \<Rightarrow>
                 (case onChunk c seen v of
                    None \<Rightarrow> [CallOnChunk v]
                  | Some e \<Rightarrow> [CallOnChunk v, CallOnError e])))"
  by (cases x; cases "snd x")
    (auto simp: stream_callback_def call_onChunk_def call_onError_def
      split: option.splits sum.splits)

lemma stream_callback_extends:
  "\<exists>new. snd (stream_callback rt c x seen) = seen @ new \<and> new \<noteq> []"
  unfolding stream_callback_cases
  by (auto split: prod.splits option.splits sum.splits)

lemma chunks_of_stream_callback:
  "chunks_of (snd (stream_callback rt c x seen)) =
     chunks_of seen @ (case carried_chunk rt x of None \<Rightarrow> [] | Some v \<Rightarrow> [v])"
  unfolding stream_callback_cases
  by (cases x) (auto simp: chunks_of_append split: option.splits sum.splits)

lemma transport_invokes_snd_Cons:
  "snd (transport_invokes cb (x # xs) seen) = snd (transport_invokes cb xs (snd (cb x seen)))"
  by (simp split: prod.splits)

lemma transport_invokes_append:
  "snd (transport_invokes cb (xs @ ys) seen) =
     snd (transport_invokes cb ys (snd (transport_invokes cb xs seen)))"
proof (induction xs arbitrary: seen)
  case Nil
  show ?case by simp
next
  case (Cons x xs)
  show ?case
    unfolding append_Cons transport_invokes_snd_Cons by (rule Cons.IH)
qed

lemma transport_invokes_extends:
  "\<exists>new. snd (transport_invokes (stream_callback rt c) ys seen) = seen @ new \<and>
         length ys \<le> length new"
proof (induction ys arbitrary: seen)
  case Nil
  show ?case by simp
next
  case (Cons y ys)
  obtain n1 where n1: "snd (stream_callback rt c y seen) = seen @ n1" "n1 \<noteq> []"
    using stream_callback_extends by blast
  obtain n2 where n2:
    "snd (transport_invokes (stream_callback rt c) ys (seen @ n1)) = (seen @ n1) @ n2"
    "length ys \<le> length n2"
    using Cons.IH by blast
  have "snd (transport_invokes (stream_callback rt c) (y # ys) seen) = seen @ (n1 @ n2)"
    unfolding transport_invokes_snd_Cons n1 n2 by simp
  moreover have "length (y # ys) \<le> length (n1 @ n2)"
    using n1(2) n2(2) by (cases n1) simp_all
  ultimately show ?case by blast
qed

lemma chunks_of_transport_invokes:
  "chunks_of (snd (transport_invokes (stream_callback rt c) calls seen)) =
     chunks_of seen @ List.map_filter (carried_chunk rt) calls"
proof (induction calls arbitrary: seen)
  case Nil
  show ?case by simp
next
  case (Cons x xs)
  show ?case
    unfolding transport_invokes_snd_Cons Cons.IH chunks_of_stream_callback
    by (simp split: option.splits)
qed

lemma carried_fragments:
  "list_all2 (\<lambda>s v. s \<noteq> ''null'' \<and> JSON_parse rt s = Inr v) texts fragments \<Longrightarrow>
   List.map_filter (carried_chunk rt) (fragment_calls texts) = fragments"
  by (induction rule: list_all2_induct) (simp_all add: fragment_calls_def)

lemma terminal_count_stream_callback:
  assumes "\<forall>seen v. onChunk c seen v = None"
  shows "terminal_count (snd (stream_callback rt c x seen)) =
           terminal_count seen + (if terminal_call rt x then 1 else 0)"
  unfolding stream_callback_cases terminal_count_append
  using assms by (cases x) (auto simp: terminal_count_def split: option.splits sum.splits)

lemma terminal_count_transport_invokes:
  assumes "\<forall>seen v. onChunk c seen v = None"
  shows "terminal_count (snd (transport_invokes (stream_callback rt c) calls seen)) =
           terminal_count seen + length (filter (terminal_call rt) calls)"
proof (induction calls arbitrary: seen)
  case Nil
  show ?case by simp
next
  case (Cons x xs)
  show ?case
    unfolding transport_invokes_snd_Cons Cons.IH terminal_count_stream_callback [OF assms]
    by simp
qed

lemma observed_eq:
  "observed rt inner request c =
     snd (transport_invokes (stream_callback rt c)
            (inner_chatCompletionStream inner (JSON_stringify rt request)) [])"
  by (simp add: observed_def chatCompletionStream_def Let_def)

lemma observed_split:
  assumes "inner_chatCompletionStream inner (JSON_stringify rt request) = xs @ x # ys"
  shows "observed rt inner request c =
           snd (transport_invokes (stream_callback rt c) ys
                  (snd (stream_callback rt c x
                          (snd (transport_invokes (stream_callback rt c) xs [])))))"
  unfolding observed_eq assms transport_invokes_append transport_invokes_snd_Cons ..

lemma stream_callback_sentinel:
  "is_sentinel p \<Longrightarrow>
   stream_callback rt c (None, p) seen = (onChunk c seen JNull, seen @ [CallOnChunk JNull])"
  by (cases p) (simp_all add: stream_callback_def call_onChunk_def)

lemma stream_callback_terminal_signal:
  "terminal_signal x = Some signal \<Longrightarrow> snd (stream_callback rt c x seen) = seen @ [signal]"
  unfolding stream_callback_cases
  by (cases x) (auto split: option.splits if_splits)

lemma transport_invokes_terminal_signals:
  "list_all2 (\<lambda>x signal. terminal_signal x = Some signal) calls signals \<Longrightarrow>
   snd (transport_invokes (stream_callback rt c) calls seen) = seen @ signals"
proof (induction calls signals arbitrary: seen rule: list_all2_induct)
  case Nil
  show ?case by simp
next
  case (Cons x signal calls signals)
  show ?case
    unfolding transport_invokes_snd_Cons stream_callback_terminal_signal [OF Cons.hyps(1)]
      Cons.IH
    by simp
qed

lemma transport_invokes_same_callback:
  assumes "\<And>seen. cb a seen = cb b seen"
  shows "transport_invokes cb (xs @ a # ys) seen = transport_invokes cb (xs @ b # ys) seen"
proof (induction xs arbitrary: seen)
  case Nil
  show ?case by (simp add: assms)
next
  case (Cons x xs)
  show ?case by (simp add: Cons.IH)
qed

lemma CallOnChunk_in_set: "CallOnChunk v \<in> set seen \<longleftrightarrow> v \<in> set (chunks_of seen)"
  by (induction seen rule: chunks_of.induct) auto

lemma set_map_filter_iff: "v \<in> set (List.map_filter f xs) \<longleftrightarrow> (\<exists>x \<in> set xs. f x = Some v)"
  by (induction xs) (auto split: option.splits)

lemma map_filter_append:
  "List.map_filter f (xs @ ys) = List.map_filter f xs @ List.map_filter f ys"
  by (induction xs) (simp_all split: option.splits)

subsection \<open>The streaming branch of chatCompletion\<close>




text \<open>
  C9. For every request whose \<^verbatim>\<open>stream\<close> is truthy, the promise of
  \<^verbatim>\<open>chatCompletion\<close> is fulfilled with an object that has
  \<^verbatim>\<open>[Symbol.asyncIterator]\<close>; the first \<^verbatim>\<open>next()\<close> of its iterator is rejected
  with the error, a second one reports \<^verbatim>\<open>done\<close>; and neither
  \<^verbatim>\<open>chatCompletion\<close> nor \<^verbatim>\<open>next()\<close> calls the native client, so the streaming
  call is never made.
\<close>

theorem chatCompletion_stream_fails_on_first_next:
  assumes "truthy (stream request)"
  shows "\<exists>h g. fst (chatCompletion rt inner request) = Some (Inr h) \<and>
               asyncIterator h = Some g \<and>
               fst (gen_next g) = Inl (Error unimplemented_message) \<and>
               fst (gen_next (fst (snd (gen_next g)))) = Inr IterDone \<and>
               snd (chatCompletion rt inner request) @ snd (snd (gen_next g)) = []"
  using assms by (simp add: chatCompletion_def)

theorem chatCompletion_stream_fails_on_first_next_witness:
  "truthy (stream stream_request) \<and>
   (\<exists>h g. fst (chatCompletion example_runtime (example_native (Inr response_text) hello_invocations)
                 stream_request) = Some (Inr h) \<and>
          asyncIterator h = Some g \<and>
          fst (gen_next g) = Inl (Error unimplemented_message) \<and>
          snd (chatCompletion example_runtime (example_native (Inr response_text) hello_invocations)
                 stream_request) @ snd (snd (gen_next g)) = [])"
proof -
  have s: "truthy (stream stream_request)"
    by (simp add: stream_request_def)
  from chatCompletion_stream_fails_on_first_next [OF s, of example_runtime
      "example_native (Inr response_text) hello_invocations"] s
  show ?thesis by blast
qed

subsection \<open>The unary branch of chatCompletion\<close>

text \<open>
  C6 (as amended). For every request whose \<^verbatim>\<open>stream\<close> is falsy,
  \<^verbatim>\<open>chatCompletion\<close> calls the native unary call exactly once, with the serialized
  request, and its promise settles exactly when the promise of that call does. It then
  has exactly one outcome, fixed by the call: rejected with the very error the unary call
  was rejected with; rejected with the very error \<^verbatim>\<open>JSON.parse\<close> threw on the
  response text; or fulfilled with the value \<^verbatim>\<open>JSON.parse\<close> returned, whatever its
  shape. The errors are passed on as they are, not sorted into kinds.
\<close>

theorem chatCompletion_unary_one_outcome:
  assumes "\<not> truthy (stream request)"
  shows "snd (chatCompletion rt inner request) = [ChatCompletion (JSON_stringify rt request)] \<and>
         (fst (chatCompletion rt inner request) = None \<longleftrightarrow>
            inner_chatCompletion inner (JSON_stringify rt request) = None) \<and>
         (\<forall>e. inner_chatCompletion inner (JSON_stringify rt request) = Some (Inl e) \<longrightarrow>
              fst (chatCompletion rt inner request) = Some (Inl e)) \<and>
         (\<forall>responseStr e.
              inner_chatCompletion inner (JSON_stringify rt request) = Some (Inr responseStr) \<and>
              JSON_parse rt responseStr = Inl e \<longrightarrow>
              fst (chatCompletion rt inner request) = Some (Inl e)) \<and>
         (\<forall>responseStr v.
              inner_chatCompletion inner (JSON_stringify rt request) = Some (Inr responseStr) \<and>
              JSON_parse rt responseStr = Inr v \<longrightarrow>
              fst (chatCompletion rt inner request) = Some (Inr (ParsedResponse v))) \<and>
         (\<forall>outcome. fst (chatCompletion rt inner request) = Some outcome \<longrightarrow>
              (\<exists>e. outcome = Inl e \<and>
                   (inner_chatCompletion inner (JSON_stringify rt request) = Some (Inl e) \<or>
                    (\<exists>responseStr.
                       inner_chatCompletion inner (JSON_stringify rt request) =
                         Some (Inr responseStr) \<and>
                       JSON_parse rt responseStr = Inl e))) \<or>
              (\<exists>responseStr v. outcome = Inr (ParsedResponse v) \<and>
                   inner_chatCompletion inner (JSON_stringify rt request) =
                     Some (Inr responseStr) \<and>
                   JSON_parse rt responseStr = Inr v))"
proof (cases "inner_chatCompletion inner (JSON_stringify rt request)")
  case None
  with assms show ?thesis
    by (simp add: chatCompletion_def Let_def)
next
  case (Some settled)
  show ?thesis
  proof (cases settled)
    case (Inl e)
    with Some assms show ?thesis
      by (simp add: chatCompletion_def Let_def)
  next
    case (Inr responseStr)
    show ?thesis
    proof (cases "JSON_parse rt responseStr")
      case (Inl e)
      with Some Inr assms show ?thesis
        by (simp add: chatCompletion_def Let_def)
    next
      case parsed: (Inr v)
      with Some Inr assms show ?thesis
        by (simp add: chatCompletion_def Let_def)
    qed
  qed
qed

theorem chatCompletion_unary_one_outcome_witness:
  "\<not> truthy (stream chat_request) \<and>
   chatCompletion example_runtime (example_native (Inr response_text) []) chat_request =
     (Some (Inr (ParsedResponse response_value)),
      [ChatCompletion (example_stringify chat_request)]) \<and>
   chatCompletion example_runtime (example_native (Inl transport_failure) []) chat_request =
     (Some (Inl transport_failure), [ChatCompletion (example_stringify chat_request)]) \<and>
   chatCompletion example_runtime (example_native (Inr truncated_text) []) chat_request =
     (Some (Inl (SyntaxError ''Unexpected end of JSON input'')),
      [ChatCompletion (example_stringify chat_request)]) \<and>
   chatCompletion example_runtime pending_native chat_request =
     (None, [ChatCompletion (example_stringify chat_request)])"
proof -
  have u: "\<not> truthy (stream chat_request)"
    by (simp add: chat_request_def)
  have p: "JSON_parse example_runtime response_text = Inr response_value"
    "JSON_parse example_runtime truncated_text = Inl (SyntaxError ''Unexpected end of JSON input'')"
    by (simp_all add: example_runtime_def example_parse_def example_texts)
  have s: "JSON_stringify example_runtime chat_request = example_stringify chat_request"
    by (simp add: example_runtime_def)
  have n: "inner_chatCompletion (example_native unary []) jsonStr = Some unary" for unary jsonStr
    by (simp add: example_native_def)
  have pending: "inner_chatCompletion pending_native jsonStr = None" for jsonStr
    by (simp add: pending_native_def)
  note outcome = chatCompletion_unary_one_outcome [OF u, where rt = example_runtime]
  note calls = outcome [THEN conjunct1, unfolded s]
  note unsettled = outcome [THEN conjunct2, THEN conjunct1]
  note rejected = outcome [THEN conjunct2, THEN conjunct2, THEN conjunct1, rule_format]
  note unparsed =
    outcome [THEN conjunct2, THEN conjunct2, THEN conjunct2, THEN conjunct1, rule_format]
  note parsed =
    outcome [THEN conjunct2, THEN conjunct2, THEN conjunct2, THEN conjunct2, THEN conjunct1,
      rule_format]
  have a: "fst (chatCompletion example_runtime (example_native (Inr response_text) [])
             chat_request) = Some (Inr (ParsedResponse response_value))"
    by (rule parsed [of _ response_text]) (simp add: n p)
  have b: "fst (chatCompletion example_runtime (example_native (Inl transport_failure) [])
             chat_request) = Some (Inl transport_failure)"
    by (rule rejected) (simp add: n)
  have c: "fst (chatCompletion example_runtime (example_native (Inr truncated_text) [])
             chat_request) = Some (Inl (SyntaxError ''Unexpected end of JSON input''))"
    by (rule unparsed [of _ truncated_text]) (simp add: n p)
  have d: "fst (chatCompletion example_runtime pending_native chat_request) = None"
    using unsettled [of pending_native] by (simp add: pending)
  from u a b c d calls show ?thesis
    by (simp add: prod_eq_iff)
qed

text \<open>
  The claim as written fails in two ways. On the response text \<^verbatim>\<open>{}\<close> the promise is
  fulfilled with the empty object: no error is raised and the value is no UnaryResponse,
  so neither of the two outcomes of the claim occurs. And the kind of an error does not
  tell where it came from: a unary call rejected with a \<^verbatim>\<open>SyntaxError\<close> and a
  response that \<^verbatim>\<open>JSON.parse\<close> rejects with the same \<^verbatim>\<open>SyntaxError\<close> give the
  same outcome.
\<close>

theorem unary_response_counterexample:
  "fst (chatCompletion example_runtime (example_native (Inr empty_object_text) []) chat_request) =
     Some (Inr (ParsedResponse (JObj []))) \<and>
   \<not> unary_response_shape (JObj []) \<and>
   chatCompletion example_runtime
     (example_native (Inl (SyntaxError ''Unexpected end of JSON input'')) []) chat_request =
   chatCompletion example_runtime (example_native (Inr truncated_text) []) chat_request"
  by (simp add: chatCompletion_def chat_request_def example_native_def example_runtime_def
      example_parse_def example_texts unary_response_shape_def)




subsection \<open>The tokenizer\<close>

text \<open>
  C8. \<^verbatim>\<open>encode\<close> and \<^verbatim>\<open>decode\<close> return or throw what the one call they make on
  the native client returns or throws; hence, on every set of strings on which the
  native tokenizer decodes what it encodes, so does the client.
\<close>

theorem encode_decode_pass_through:
  "encode inner text = (tokenizerEncode inner text, [TokenizerEncode text]) \<and>
   decode inner tokenIds = (tokenizerDecode inner tokenIds, [TokenizerDecode tokenIds]) \<and>
   (\<forall>e. tokenizerEncode inner text = Inl e \<longrightarrow>
        fst (encode inner text) = Inl e \<and> decode_encode inner text = Inl e) \<and>
   (\<forall>e. tokenizerDecode inner tokenIds = Inl e \<longrightarrow> fst (decode inner tokenIds) = Inl e) \<and>
   ((\<forall>s \<in> alphabet. \<exists>ids. tokenizerEncode inner s = Inr ids \<and> tokenizerDecode inner ids = Inr s) \<longrightarrow>
    (\<forall>s \<in> alphabet. decode_encode inner s = Inr s))"
  by (auto simp: encode_def decode_def decode_encode_def)

theorem encode_decode_pass_through_witness:
  "(\<exists>ids. tokenizerEncode (example_native (Inr response_text) []) ''Hello world'' = Inr ids \<and>
          tokenizerDecode (example_native (Inr response_text) []) ids = Inr ''Hello world'') \<and>
   decode_encode (example_native (Inr response_text) []) ''Hello world'' = Inr ''Hello world'' \<and>
   tokenizerEncode (example_native (Inr response_text) []) ''Bye'' =
     Inl (Error ''tokenizer: cannot encode'') \<and>
   encode (example_native (Inr response_text) []) ''Bye'' =
     (Inl (Error ''tokenizer: cannot encode''), [TokenizerEncode ''Bye''])"
proof -
  have law: "\<forall>s \<in> {''Hello world''}.
      \<exists>ids. tokenizerEncode (example_native (Inr response_text) []) s = Inr ids \<and>
            tokenizerDecode (example_native (Inr response_text) []) ids = Inr s"
    by (simp add: example_native_def)
  have err: "tokenizerEncode (example_native (Inr response_text) []) ''Bye'' =
     Inl (Error ''tokenizer: cannot encode'')"
    by (simp add: example_native_def)
  from encode_decode_pass_through [of "example_native (Inr response_text) []" "''Bye''" "[]"
      "{''Hello world''}"] law err
  show ?thesis by simp
qed

subsection \<open>chatCompletionStream\<close>

text \<open>
  C2 (as amended). For every request consumed through \<^verbatim>\<open>chatCompletionStream\<close> with
  an \<^verbatim>\<open>onChunk\<close> that returns normally, and for every list of invocations the native
  client makes, the consumer observes as many terminal events as there are terminal
  invocations (an error, the sentinel, a payload that \<^verbatim>\<open>JSON.parse\<close> rejects or
  reads as \<^verbatim>\<open>null\<close>): exactly one when the native client makes exactly one.
\<close>

theorem terminal_events_match_terminal_invocations:
  assumes "\<forall>seen v. onChunk c seen v = None"
  shows "terminal_count (observed rt inner request c) =
           length (filter (terminal_call rt)
                     (inner_chatCompletionStream inner (JSON_stringify rt request)))"
  unfolding observed_eq terminal_count_transport_invokes [OF assms]
  by (simp add: terminal_count_def)

theorem terminal_events_match_terminal_invocations_witness:
  "(\<forall>seen v. onChunk quiet_consumer seen v = None) \<and>
   terminal_count
     (observed example_runtime (example_native (Inr response_text) hello_invocations)
        stream_request quiet_consumer) = 1 \<and>
   length (filter (terminal_call example_runtime) hello_invocations) = 1"
proof -
  have q: "\<forall>seen v. onChunk quiet_consumer seen v = None"
    by (simp add: quiet_consumer_def)
  have n: "length (filter (terminal_call example_runtime) hello_invocations) = 1"
    by (simp add: hello_invocations_def example_runtime_def example_parse_def chunk_text_def
        chunk_value_def response_text_def)
  have "inner_chatCompletionStream (example_native (Inr response_text) hello_invocations)
          (JSON_stringify example_runtime stream_request) = hello_invocations"
    by (simp add: example_native_def)
  with terminal_events_match_terminal_invocations [OF q, of example_runtime
      "example_native (Inr response_text) hello_invocations" stream_request] n q
  show ?thesis by simp
qed

text \<open>
  The claim as written (exactly one terminal event for every list of invocations) fails:
  a native client that stops calling back leaves the consumer with none, and one that
  reports an error twice gives it two.
\<close>

theorem exactly_one_terminal_event_counterexample:
  "terminal_count
     (observed example_runtime (example_native (Inr response_text) [])
        stream_request quiet_consumer) = 0 \<and>
   terminal_count
     (observed example_runtime
        (example_native (Inr response_text)
           [(Some transport_failure, PNull), (Some transport_failure, PNull)])
        stream_request quiet_consumer) = 2"
  by (simp add: observed_eq example_native_def stream_callback_def call_onError_def
      terminal_count_def)

text \<open>
  C3. When the native client delivers a sequence of fragment payloads (texts other than
  the sentinel that \<^verbatim>\<open>JSON.parse\<close> accepts), the arguments of the consumer's
  \<^verbatim>\<open>onChunk\<close> calls are the parsed fragments, in the same order and one for one. For
  any invocations at all, the \<^verbatim>\<open>onChunk\<close> arguments are the chunks the invocations
  carry, in order. When the native client makes an invocation, every chunk of the earlier
  invocations is already with the consumer, and what this invocation delivers, a terminal
  signal included, comes after them.
\<close>

theorem chunks_delivered_in_transport_order:
  "(\<forall>texts fragments.
      inner_chatCompletionStream inner (JSON_stringify rt request) = fragment_calls texts \<and>
      list_all2 (\<lambda>s v. s \<noteq> ''null'' \<and> JSON_parse rt s = Inr v) texts fragments \<longrightarrow>
      chunks_of (observed rt inner request c) = fragments) \<and>
   chunks_of (observed rt inner request c) =
     List.map_filter (carried_chunk rt)
       (inner_chatCompletionStream inner (JSON_stringify rt request)) \<and>
   (\<forall>xs x ys.
      inner_chatCompletionStream inner (JSON_stringify rt request) = xs @ x # ys \<longrightarrow>
      (\<exists>before new rest.
         before = snd (transport_invokes (stream_callback rt c) xs []) \<and>
         chunks_of before = List.map_filter (carried_chunk rt) xs \<and>
         snd (stream_callback rt c x before) = before @ new \<and>
         observed rt inner request c = before @ new @ rest))"
proof (intro conjI allI impI)
  fix texts fragments
  assume "inner_chatCompletionStream inner (JSON_stringify rt request) = fragment_calls texts \<and>
      list_all2 (\<lambda>s v. s \<noteq> ''null'' \<and> JSON_parse rt s = Inr v) texts fragments"
  then show "chunks_of (observed rt inner request c) = fragments"
    by (simp add: observed_eq chunks_of_transport_invokes carried_fragments)
next
  show "chunks_of (observed rt inner request c) =
     List.map_filter (carried_chunk rt)
       (inner_chatCompletionStream inner (JSON_stringify rt request))"
    by (simp add: observed_eq chunks_of_transport_invokes)
next
  fix xs x ys
  assume split: "inner_chatCompletionStream inner (JSON_stringify rt request) = xs @ x # ys"
  define before where "before = snd (transport_invokes (stream_callback rt c) xs [])"
  obtain new where new: "snd (stream_callback rt c x before) = before @ new"
    using stream_callback_extends by blast
  obtain rest where rest:
    "snd (transport_invokes (stream_callback rt c) ys (before @ new)) = (before @ new) @ rest"
    using transport_invokes_extends by blast
  have "observed rt inner request c = before @ new @ rest"
    unfolding observed_eq split transport_invokes_append transport_invokes_snd_Cons
    using new rest by (simp add: before_def)
  moreover have "chunks_of before = List.map_filter (carried_chunk rt) xs"
    by (simp add: before_def chunks_of_transport_invokes)
  ultimately show "\<exists>before new rest.
         before = snd (transport_invokes (stream_callback rt c) xs []) \<and>
         chunks_of before = List.map_filter (carried_chunk rt) xs \<and>
         snd (stream_callback rt c x before) = before @ new \<and>
         observed rt inner request c = before @ new @ rest"
    using new before_def by blast
qed

text \<open>
  The scenario of the spec: the consumer receives \<^verbatim>\<open>He\<close>, then \<^verbatim>\<open>llo\<close>, then the
  end-of-stream signal, which the third invocation delivers after both fragments.
\<close>

theorem chunks_delivered_in_transport_order_witness:
  "inner_chatCompletionStream (example_native (Inr response_text) hello_invocations)
     (JSON_stringify example_runtime stream_request) =
     fragment_calls [chunk_text ''He'', chunk_text ''llo''] @ (None, PStr ''null'') # [] \<and>
   list_all2 (\<lambda>s v. s \<noteq> ''null'' \<and> JSON_parse example_runtime s = Inr v)
     [chunk_text ''He'', chunk_text ''llo''] [chunk_value ''He'', chunk_value ''llo''] \<and>
   chunks_of
     (observed example_runtime
        (example_native (Inr response_text) (fragment_calls [chunk_text ''He'', chunk_text ''llo'']))
        stream_request quiet_consumer) =
     [chunk_value ''He'', chunk_value ''llo''] \<and>
   chunks_of
     (observed example_runtime (example_native (Inr response_text) hello_invocations)
        stream_request quiet_consumer) =
     [chunk_value ''He'', chunk_value ''llo'', JNull] \<and>
   (\<exists>new rest.
      observed example_runtime (example_native (Inr response_text) hello_invocations)
        stream_request quiet_consumer =
      [CallOnChunk (chunk_value ''He''), CallOnChunk (chunk_value ''llo'')] @ new @ rest)"
proof -
  let ?texts = "[chunk_text ''He'', chunk_text ''llo'']"
  have inv: "inner_chatCompletionStream (example_native (Inr response_text) hello_invocations)
     (JSON_stringify example_runtime stream_request) =
     fragment_calls ?texts @ (None, PStr ''null'') # []"
    by (simp add: example_native_def hello_invocations_def fragment_calls_def)
  have inv2: "inner_chatCompletionStream
     (example_native (Inr response_text) (fragment_calls ?texts))
     (JSON_stringify example_runtime stream_request) = fragment_calls ?texts"
    by (simp add: example_native_def)
  have parsed: "list_all2 (\<lambda>s v. s \<noteq> ''null'' \<and> JSON_parse example_runtime s = Inr v)
     ?texts [chunk_value ''He'', chunk_value ''llo'']"
    by (simp add: example_runtime_def example_parse_def example_texts)
  have before: "snd (transport_invokes (stream_callback example_runtime quiet_consumer)
      (fragment_calls ?texts) []) =
      [CallOnChunk (chunk_value ''He''), CallOnChunk (chunk_value ''llo'')]"
    by (simp add: fragment_calls_def stream_callback_def call_onChunk_def call_onError_def
        quiet_consumer_def example_runtime_def example_parse_def example_texts)
  have carried: "List.map_filter (carried_chunk example_runtime) hello_invocations =
      [chunk_value ''He'', chunk_value ''llo'', JNull]"
    by (simp add: hello_invocations_def example_runtime_def example_parse_def example_texts)
  note thm1 = chunks_delivered_in_transport_order [where
      inner = "example_native (Inr response_text) (fragment_calls ?texts)" and
      rt = example_runtime and request = stream_request and c = quiet_consumer]
  note thm2 = chunks_delivered_in_transport_order [where
      inner = "example_native (Inr response_text) hello_invocations" and
      rt = example_runtime and request = stream_request and c = quiet_consumer]
  have inv3: "inner_chatCompletionStream (example_native (Inr response_text) hello_invocations)
     (JSON_stringify example_runtime stream_request) = hello_invocations"
    by (simp add: example_native_def)
  have a: "chunks_of
     (observed example_runtime (example_native (Inr response_text) (fragment_calls ?texts))
        stream_request quiet_consumer) = [chunk_value ''He'', chunk_value ''llo'']"
    using thm1 inv2 parsed by blast
  have b: "chunks_of
     (observed example_runtime (example_native (Inr response_text) hello_invocations)
        stream_request quiet_consumer) = [chunk_value ''He'', chunk_value ''llo'', JNull]"
    using thm2 carried inv3 by simp
  from thm2 have
    "\<forall>xs x ys.
      inner_chatCompletionStream (example_native (Inr response_text) hello_invocations)
        (JSON_stringify example_runtime stream_request) = xs @ x # ys \<longrightarrow>
      (\<exists>before new rest.
         before = snd (transport_invokes (stream_callback example_runtime quiet_consumer) xs []) \<and>
         chunks_of before = List.map_filter (carried_chunk example_runtime) xs \<and>
         snd (stream_callback example_runtime quiet_consumer x before) = before @ new \<and>
         observed example_runtime (example_native (Inr response_text) hello_invocations)
           stream_request quiet_consumer = before @ new @ rest)"
    by (rule conjunct2 [THEN conjunct2])
  from this [rule_format, OF inv] have c: "\<exists>new rest.
      observed example_runtime (example_native (Inr response_text) hello_invocations)
        stream_request quiet_consumer =
      [CallOnChunk (chunk_value ''He''), CallOnChunk (chunk_value ''llo'')] @ new @ rest"
    unfolding before by blast
  from inv parsed a b c show ?thesis by (intro conjI)
qed

text \<open>
  C4. Whenever the native client makes an invocation without error whose payload is the
  sentinel (the text \<^verbatim>\<open>null\<close> or the value \<^verbatim>\<open>null\<close>),
  \<^verbatim>\<open>chatCompletionStream\<close> gives the consumer \<^verbatim>\<open>onChunk(null)\<close> for it, and
  nothing else, right after what the earlier invocations delivered. The payload is not
  parsed: on a stream of errors and sentinels the consumer's calls are the invocations'
  signals, whatever \<^verbatim>\<open>JSON.parse\<close> is. And no clock takes part: the consumer
  receives \<^verbatim>\<open>onChunk(null)\<close> exactly when an invocation carries it, so after any
  silence of the native client nothing is signalled.
\<close>

theorem sentinel_signals_end_of_stream:
  "(\<forall>xs p ys.
      inner_chatCompletionStream inner (JSON_stringify rt request) = xs @ (None, p) # ys \<and>
      is_sentinel p \<longrightarrow>
      (\<exists>before rest.
         before = snd (transport_invokes (stream_callback rt c) xs []) \<and>
         snd (stream_callback rt c (None, p) before) = before @ [CallOnChunk JNull] \<and>
         observed rt inner request c = before @ CallOnChunk JNull # rest)) \<and>
   (\<forall>signals.
      list_all2 (\<lambda>x signal. terminal_signal x = Some signal)
        (inner_chatCompletionStream inner (JSON_stringify rt request)) signals \<longrightarrow>
      observed rt inner request c = signals) \<and>
   (CallOnChunk JNull \<in> set (observed rt inner request c) \<longleftrightarrow>
      (\<exists>x \<in> set (inner_chatCompletionStream inner (JSON_stringify rt request)).
         carried_chunk rt x = Some JNull))"
proof (intro conjI allI impI)
  fix xs p ys
  assume "inner_chatCompletionStream inner (JSON_stringify rt request) = xs @ (None, p) # ys \<and>
      is_sentinel p"
  then have split: "inner_chatCompletionStream inner (JSON_stringify rt request) =
      xs @ (None, p) # ys" and p: "is_sentinel p"
    by simp_all
  define before where "before = snd (transport_invokes (stream_callback rt c) xs [])"
  have here: "snd (stream_callback rt c (None, p) before) = before @ [CallOnChunk JNull]"
    by (simp add: stream_callback_sentinel [OF p])
  obtain rest where rest:
    "snd (transport_invokes (stream_callback rt c) ys (before @ [CallOnChunk JNull])) =
       (before @ [CallOnChunk JNull]) @ rest"
    using transport_invokes_extends by blast
  have "observed rt inner request c = before @ CallOnChunk JNull # rest"
    unfolding observed_split [OF split] before_def [symmetric] here rest by simp
  with here show "\<exists>before rest.
         before = snd (transport_invokes (stream_callback rt c) xs []) \<and>
         snd (stream_callback rt c (None, p) before) = before @ [CallOnChunk JNull] \<and>
         observed rt inner request c = before @ CallOnChunk JNull # rest"
    using before_def by blast
next
  fix signals
  assume "list_all2 (\<lambda>x signal. terminal_signal x = Some signal)
        (inner_chatCompletionStream inner (JSON_stringify rt request)) signals"
  then show "observed rt inner request c = signals"
    by (simp add: observed_eq transport_invokes_terminal_signals)
next
  show "CallOnChunk JNull \<in> set (observed rt inner request c) \<longleftrightarrow>
      (\<exists>x \<in> set (inner_chatCompletionStream inner (JSON_stringify rt request)).
         carried_chunk rt x = Some JNull)"
    by (simp add: CallOnChunk_in_set observed_eq chunks_of_transport_invokes set_map_filter_iff)
qed

text \<open>
  The scenario of the spec, a stream that is only the value \<^verbatim>\<open>null\<close> after an
  error, and a native client that never calls back.
\<close>

theorem sentinel_signals_end_of_stream_witness:
  "inner_chatCompletionStream (example_native (Inr response_text) hello_invocations)
     (JSON_stringify example_runtime stream_request) =
     fragment_calls [chunk_text ''He'', chunk_text ''llo''] @ (None, PStr ''null'') # [] \<and>
   is_sentinel (PStr ''null'') \<and>
   (\<exists>rest.
      observed example_runtime (example_native (Inr response_text) hello_invocations)
        stream_request quiet_consumer =
      [CallOnChunk (chunk_value ''He''), CallOnChunk (chunk_value ''llo'')] @
        CallOnChunk JNull # rest) \<and>
   list_all2 (\<lambda>x signal. terminal_signal x = Some signal)
     [(Some transport_failure, PNull), (None, PNull)]
     [CallOnError transport_failure, CallOnChunk JNull] \<and>
   observed example_runtime
     (example_native (Inr response_text) [(Some transport_failure, PNull), (None, PNull)])
     stream_request quiet_consumer = [CallOnError transport_failure, CallOnChunk JNull] \<and>
   CallOnChunk JNull \<notin>
     set (observed example_runtime (example_native (Inr response_text) []) stream_request
            quiet_consumer)"
proof -
  let ?texts = "[chunk_text ''He'', chunk_text ''llo'']"
  let ?late = "[(Some transport_failure, PNull), (None, PNull)]"
  have inv: "inner_chatCompletionStream (example_native (Inr response_text) hello_invocations)
     (JSON_stringify example_runtime stream_request) =
     fragment_calls ?texts @ (None, PStr ''null'') # []"
    by (simp add: example_native_def hello_invocations_def fragment_calls_def)
  have sentinel: "is_sentinel (PStr ''null'')"
    by simp
  have before: "snd (transport_invokes (stream_callback example_runtime quiet_consumer)
      (fragment_calls ?texts) []) =
      [CallOnChunk (chunk_value ''He''), CallOnChunk (chunk_value ''llo'')]"
    by (simp add: fragment_calls_def stream_callback_def call_onChunk_def call_onError_def
        quiet_consumer_def example_runtime_def example_parse_def example_texts)
  have signals: "list_all2 (\<lambda>x signal. terminal_signal x = Some signal) ?late
     [CallOnError transport_failure, CallOnChunk JNull]"
    by simp
  have inv_late: "inner_chatCompletionStream (example_native (Inr response_text) ?late)
     (JSON_stringify example_runtime stream_request) = ?late"
    by (simp add: example_native_def)
  have inv_silent: "inner_chatCompletionStream (example_native (Inr response_text) [])
     (JSON_stringify example_runtime stream_request) = []"
    by (simp add: example_native_def)
  note hello = sentinel_signals_end_of_stream [where
      inner = "example_native (Inr response_text) hello_invocations" and
      rt = example_runtime and request = stream_request and c = quiet_consumer]
  note late = sentinel_signals_end_of_stream [where
      inner = "example_native (Inr response_text) ?late" and
      rt = example_runtime and request = stream_request and c = quiet_consumer]
  note silent = sentinel_signals_end_of_stream [where
      inner = "example_native (Inr response_text) []" and
      rt = example_runtime and request = stream_request and c = quiet_consumer]
  have a: "\<exists>rest.
      observed example_runtime (example_native (Inr response_text) hello_invocations)
        stream_request quiet_consumer =
      [CallOnChunk (chunk_value ''He''), CallOnChunk (chunk_value ''llo'')] @
        CallOnChunk JNull # rest"
    using hello [THEN conjunct1, rule_format, OF conjI, OF inv sentinel]
    unfolding before by blast
  have b: "observed example_runtime (example_native (Inr response_text) ?late)
     stream_request quiet_consumer = [CallOnError transport_failure, CallOnChunk JNull]"
    using late [THEN conjunct2, THEN conjunct1, rule_format, unfolded inv_late, OF signals] .
  have c: "CallOnChunk JNull \<notin>
     set (observed example_runtime (example_native (Inr response_text) []) stream_request
            quiet_consumer)"
    using silent [THEN conjunct2, THEN conjunct2] unfolding inv_silent by simp
  from inv sentinel a signals b c show ?thesis
    by (intro conjI)
qed

text \<open>
  C10. The sentinel is in band. When the native client delivers the four-character text
  \<^verbatim>\<open>null\<close> without error, \<^verbatim>\<open>chatCompletionStream\<close> gives the consumer
  \<^verbatim>\<open>onChunk(null)\<close> for it, whatever \<^verbatim>\<open>JSON.parse\<close> would make of the text:
  the consumer's calls, and the exceptions that escape, are those of the same stream with
  the value \<^verbatim>\<open>null\<close> in its place, and the fragments the consumer receives are
  those of the other invocations only.
\<close>

theorem null_text_is_never_a_fragment:
  assumes "inner_chatCompletionStream inner (JSON_stringify rt request) =
             xs @ (None, PStr ''null'') # ys"
    and "inner_chatCompletionStream inner' (JSON_stringify rt request) =
             xs @ (None, PNull) # ys"
  shows "fst (chatCompletionStream rt inner request c) =
           fst (chatCompletionStream rt inner' request c) \<and>
         (\<exists>rest. observed rt inner request c =
                  snd (transport_invokes (stream_callback rt c) xs []) @
                  CallOnChunk JNull # rest) \<and>
         fragments_of (observed rt inner request c) =
           filter (\<lambda>v. v \<noteq> JNull) (List.map_filter (carried_chunk rt) (xs @ ys)) \<and>
         0 < terminal_count (observed rt inner request c)"
proof (intro conjI)
  have same: "stream_callback rt c (None, PStr ''null'') seen =
      stream_callback rt c (None, PNull) seen" for seen
    by (simp add: stream_callback_sentinel)
  show "fst (chatCompletionStream rt inner request c) =
           fst (chatCompletionStream rt inner' request c)"
    unfolding chatCompletionStream_def Let_def fst_conv assms
    by (rule transport_invokes_same_callback) (rule same)
next
  define before where "before = snd (transport_invokes (stream_callback rt c) xs [])"
  have here: "snd (stream_callback rt c (None, PStr ''null'') before) =
      before @ [CallOnChunk JNull]"
    by (simp add: stream_callback_sentinel)
  obtain rest where rest:
    "snd (transport_invokes (stream_callback rt c) ys (before @ [CallOnChunk JNull])) =
       (before @ [CallOnChunk JNull]) @ rest"
    using transport_invokes_extends by blast
  have obs: "observed rt inner request c = before @ CallOnChunk JNull # rest"
    unfolding observed_split [OF assms(1)] before_def [symmetric] here rest by simp
  then show "\<exists>rest. observed rt inner request c =
                  snd (transport_invokes (stream_callback rt c) xs []) @
                  CallOnChunk JNull # rest"
    unfolding before_def by blast
  from obs show "0 < terminal_count (observed rt inner request c)"
    by (simp add: terminal_count_def)
next
  show "fragments_of (observed rt inner request c) =
           filter (\<lambda>v. v \<noteq> JNull) (List.map_filter (carried_chunk rt) (xs @ ys))"
    unfolding fragments_of_def observed_eq chunks_of_transport_invokes assms(1)
    by (simp add: map_filter_append)
qed

theorem null_text_is_never_a_fragment_witness:
  "inner_chatCompletionStream (example_native (Inr response_text) hello_invocations)
     (JSON_stringify example_runtime stream_request) =
     fragment_calls [chunk_text ''He'', chunk_text ''llo''] @ (None, PStr ''null'') # [] \<and>
   inner_chatCompletionStream
     (example_native (Inr response_text)
        (fragment_calls [chunk_text ''He'', chunk_text ''llo''] @ (None, PNull) # []))
     (JSON_stringify example_runtime stream_request) =
     fragment_calls [chunk_text ''He'', chunk_text ''llo''] @ (None, PNull) # [] \<and>
   fst (chatCompletionStream example_runtime
          (example_native (Inr response_text) hello_invocations) stream_request quiet_consumer) =
   fst (chatCompletionStream example_runtime
          (example_native (Inr response_text)
             (fragment_calls [chunk_text ''He'', chunk_text ''llo''] @ (None, PNull) # []))
          stream_request quiet_consumer) \<and>
   fragments_of
     (observed example_runtime (example_native (Inr response_text) hello_invocations)
        stream_request quiet_consumer) = [chunk_value ''He'', chunk_value ''llo'']"
proof -
  let ?texts = "[chunk_text ''He'', chunk_text ''llo'']"
  have inv: "inner_chatCompletionStream (example_native (Inr response_text) hello_invocations)
     (JSON_stringify example_runtime stream_request) =
     fragment_calls ?texts @ (None, PStr ''null'') # []"
    by (simp add: example_native_def hello_invocations_def fragment_calls_def)
  have inv': "inner_chatCompletionStream
     (example_native (Inr response_text) (fragment_calls ?texts @ (None, PNull) # []))
     (JSON_stringify example_runtime stream_request) =
     fragment_calls ?texts @ (None, PNull) # []"
    by (simp add: example_native_def)
  have carried: "filter (\<lambda>v. v \<noteq> JNull)
      (List.map_filter (carried_chunk example_runtime) (fragment_calls ?texts @ [])) =
      [chunk_value ''He'', chunk_value ''llo'']"
    by (simp add: fragment_calls_def example_runtime_def example_parse_def example_texts
        chunk_value_def)
  note null_text = null_text_is_never_a_fragment [OF inv inv', of quiet_consumer]
  from null_text [THEN conjunct1] null_text [THEN conjunct2, THEN conjunct2, THEN conjunct1]
    inv inv' carried
  show ?thesis
    by simp
qed




end
